theory Spec2Isabelle
  imports Complex_Main
begin

text \<open>
  The morph engine of the tree scene. Line numbers refer to \<open>src/tree/store.ts\<close>, which
  holds the store (lines 1 to 44), the scene components with their input handlers and
  frame callbacks (lines 45 to 660) and the sampling functions (lines 661 to 836).
\<close>

section \<open>Numbers\<close>

text \<open>
  A JavaScript \<open>number\<close> is modelled as a \<^typ>\<open>real\<close>: arithmetic is exact and there is
  no rounding, infinity or not-a-number value. Indices and loop counters, which the
  source only ever increments from 0, are \<^typ>\<open>nat\<close>. The functions defined this way
  give the exact value of the expressions of the source. The code evaluates them in
  double precision; where a property depends on the rounding, the function is defined a
  second time with every operation rounded, under the name suffixed \<open>_f64\<close>.
\<close>

text \<open>\<open>THREE.MathUtils.clamp(value, min, max)\<close> is \<open>Math.max(min, Math.min(max, value))\<close>.\<close>

definition clamp :: "real \<Rightarrow> real \<Rightarrow> real \<Rightarrow> real" where
  "clamp v lo hi = max lo (min hi v)"

text \<open>\<open>THREE.MathUtils.lerp(x, y, t)\<close> is \<open>(1 - t) * x + t * y\<close>.\<close>

definition lerp :: "real \<Rightarrow> real \<Rightarrow> real \<Rightarrow> real" where
  "lerp a b t = (1 - t) * a + t * b"

text \<open>
  \<open>Math.pow(x, y)\<close>. With a non-negative whole exponent (the literal \<open>3\<close> of the easing)
  it is the repeated product, for every base. Otherwise it is \<open>x powr y\<close>, which agrees
  with \<open>Math.pow\<close> for a base \<open>x > 0\<close> and for \<open>x = 0\<close> with \<open>y > 0\<close>; the sampler
  only calls it with a base drawn from \<open>[0, 1)\<close>.
\<close>

definition Math_pow :: "real \<Rightarrow> real \<Rightarrow> real" where
  "Math_pow b e =
     (if 0 \<le> e \<and> e = of_int \<lfloor>e\<rfloor> then b ^ nat \<lfloor>e\<rfloor> else b powr e)"

section \<open>The store (lines 1 to 44)\<close>

datatype TreeMorphState = SCATTERED | TREE_SHAPE

record TreeStore =
  state :: TreeMorphState
  progress :: real
  selectedPolaroid :: "nat option"

text \<open>The object the store is created with: lines 24, 25 and 40.\<close>

definition initialStore :: TreeStore where
  "initialStore = \<lparr>state = TREE_SHAPE, progress = 1, selectedPolaroid = None\<rparr>"

definition toggle :: "TreeStore \<Rightarrow> TreeStore" where
  "toggle prev =
     (let nextState = (if state prev = SCATTERED then TREE_SHAPE else SCATTERED)
      in prev\<lparr>state := nextState,
              progress := (if nextState = TREE_SHAPE then 1 else 0)\<rparr>)"

definition setProgress :: "real \<Rightarrow> TreeStore \<Rightarrow> TreeStore" where
  "setProgress p s = s\<lparr>progress := p\<rparr>"

definition setState :: "TreeMorphState \<Rightarrow> TreeStore \<Rightarrow> TreeStore" where
  "setState m s = s\<lparr>state := m\<rparr>"

definition setSelectedPolaroid :: "nat option \<Rightarrow> TreeStore \<Rightarrow> TreeStore" where
  "setSelectedPolaroid i s = s\<lparr>selectedPolaroid := i\<rparr>"

definition selectPolaroid :: "nat \<Rightarrow> TreeStore \<Rightarrow> TreeStore" where
  "selectPolaroid i s = s\<lparr>selectedPolaroid := Some i\<rparr>"

definition clearPolaroid :: "TreeStore \<Rightarrow> TreeStore" where
  "clearPolaroid s = s\<lparr>selectedPolaroid := None\<rparr>"

section \<open>The input handlers (lines 517 to 582 and 323 to 328)\<close>

text \<open>The \<open>keydown\<close> listener: \<open>e.code === "Space" && toggle()\<close>.\<close>

definition onKey :: "string \<Rightarrow> TreeStore \<Rightarrow> TreeStore" where
  "onKey code s = (if code = ''Space'' then toggle s else s)"

text \<open>The \<open>wheel\<close> listener, given the event's \<open>deltaY\<close>.\<close>

definition onWheel :: "real \<Rightarrow> TreeStore \<Rightarrow> TreeStore" where
  "onWheel deltaY s =
     (let speed = 0.0012;
          next = clamp (progress s - deltaY * speed) 0 1
      in setState (if next > 0.5 then TREE_SHAPE else SCATTERED) (setProgress next s))"

text \<open>
  The \<open>onPointerDown\<close> of panel \<open>i\<close> in \<open>PolaroidField\<close>. It stops the propagation of
  the event, so the handler of the enclosing group does not run for it.
\<close>

definition panelPointerDown :: "nat \<Rightarrow> TreeStore \<Rightarrow> TreeStore" where
  "panelPointerDown i s = (if state s = SCATTERED then selectPolaroid i s else s)"

text \<open>The \<open>onPointerDown\<close> of the outer group of \<open>TreeSystem\<close>.\<close>

definition groupPointerDown :: "TreeStore \<Rightarrow> TreeStore" where
  "groupPointerDown s =
     (if state s = SCATTERED \<and> selectedPolaroid s \<noteq> None then clearPolaroid s else s)"

datatype InputEvent =
    KeyDown string
  | Wheel real
  | PanelPointerDown nat
  | BackgroundPointerDown

fun handleEvent :: "TreeStore \<Rightarrow> InputEvent \<Rightarrow> TreeStore" where
  "handleEvent s (KeyDown code) = onKey code s"
| "handleEvent s (Wheel deltaY) = onWheel deltaY s"
| "handleEvent s (PanelPointerDown i) = panelPointerDown i s"
| "handleEvent s BackgroundPointerDown = groupPointerDown s"

text \<open>The store after a sequence of input events, starting from the initial store.\<close>

definition runEvents :: "InputEvent list \<Rightarrow> TreeStore" where
  "runEvents evs = foldl handleEvent initialStore evs"

section \<open>Easing (lines 680 to 682)\<close>

text \<open>
  The exact value of the expression of line 681. What the code computes from a double
  is \<open>easeInOutCubic_f64\<close> below.
\<close>

definition easeInOutCubic :: "real \<Rightarrow> real" where
  "easeInOutCubic t =
     (if t < 0.5 then 4 * t * t * t else 1 - Math_pow (-2 * t + 2) 3 / 2)"

section \<open>Vectors and orientations (three.js)\<close>

text \<open>
  \<open>THREE.Vector3\<close>, with the fields \<open>x\<close>, \<open>y\<close>, \<open>z\<close> written \<open>vx\<close>, \<open>vy\<close>, \<open>vz\<close>.
  The source mutates vectors in place; here every method returns the new vector.
\<close>

record Vector3 =
  vx :: real
  vy :: real
  vz :: real

definition Vector3_new :: "real \<Rightarrow> real \<Rightarrow> real \<Rightarrow> Vector3" where
  "Vector3_new a b c = \<lparr>vx = a, vy = b, vz = c\<rparr>"

definition Vector3_add :: "Vector3 \<Rightarrow> Vector3 \<Rightarrow> Vector3" where
  "Vector3_add a b = Vector3_new (vx a + vx b) (vy a + vy b) (vz a + vz b)"

definition Vector3_sub :: "Vector3 \<Rightarrow> Vector3 \<Rightarrow> Vector3" where
  "Vector3_sub a b = Vector3_new (vx a - vx b) (vy a - vy b) (vz a - vz b)"

definition Vector3_multiplyScalar :: "Vector3 \<Rightarrow> real \<Rightarrow> Vector3" where
  "Vector3_multiplyScalar a k = Vector3_new (vx a * k) (vy a * k) (vz a * k)"

definition Vector3_cross :: "Vector3 \<Rightarrow> Vector3 \<Rightarrow> Vector3" where
  "Vector3_cross a b =
     Vector3_new (vy a * vz b - vz a * vy b)
                 (vz a * vx b - vx a * vz b)
                 (vx a * vy b - vy a * vx b)"

definition Vector3_lengthSq :: "Vector3 \<Rightarrow> real" where
  "Vector3_lengthSq a = vx a * vx a + vy a * vy a + vz a * vz a"

definition Vector3_length :: "Vector3 \<Rightarrow> real" where
  "Vector3_length a = sqrt (Vector3_lengthSq a)"

text \<open>
  \<open>normalize()\<close> divides by \<open>this.length() || 1\<close>: a vector of length zero is
  divided by 1 and stays the zero vector.
\<close>

definition Vector3_normalize :: "Vector3 \<Rightarrow> Vector3" where
  "Vector3_normalize a =
     (let l = (if Vector3_length a = 0 then 1 else Vector3_length a)
      in Vector3_new (vx a / l) (vy a / l) (vz a / l))"

text \<open>\<open>a.lerp(b, alpha)\<close>: each component \<open>c\<close> becomes \<open>c + (b.c - c) * alpha\<close>.\<close>

definition Vector3_lerp :: "Vector3 \<Rightarrow> Vector3 \<Rightarrow> real \<Rightarrow> Vector3" where
  "Vector3_lerp a b alpha =
     Vector3_new (vx a + (vx b - vx a) * alpha)
                 (vy a + (vy b - vy a) * alpha)
                 (vz a + (vz b - vz a) * alpha)"

record Quaternion =
  qx :: real
  qy :: real
  qz :: real
  qw :: real

record Euler =
  ex :: real
  ey :: real
  ez :: real

text \<open>A \<open>THREE.Matrix4\<close> is its array \<open>elements\<close> of 16 numbers, column by column.\<close>

type_synonym Matrix4 = "real list"

text \<open>\<open>makeBasis(xAxis, yAxis, zAxis)\<close> writes the three axes into the first three columns.\<close>

definition Matrix4_makeBasis :: "Vector3 \<Rightarrow> Vector3 \<Rightarrow> Vector3 \<Rightarrow> Matrix4" where
  "Matrix4_makeBasis a b c =
     [vx a, vy a, vz a, 0,
      vx b, vy b, vz b, 0,
      vx c, vy c, vz c, 0,
      0, 0, 0, 1]"

text \<open>
  The remaining three.js operations the source calls are not part of the repository.
  They are parameters of the model: conversions to a quaternion from Euler angles and
  from a rotation matrix, the look-at matrix from \<open>eye\<close>, \<open>target\<close> and \<open>up\<close>,
  and spherical interpolation \<open>a.slerp(b, t)\<close>.
\<close>

record ThreeLib =
  setFromEuler :: "Euler \<Rightarrow> Quaternion"
  setFromRotationMatrix :: "Matrix4 \<Rightarrow> Quaternion"
  lookAt :: "Vector3 \<Rightarrow> Vector3 \<Rightarrow> Vector3 \<Rightarrow> Matrix4"
  slerp :: "Quaternion \<Rightarrow> Quaternion \<Rightarrow> real \<Rightarrow> Quaternion"

section \<open>The random source\<close>

text \<open>
  \<open>Math.random\<close> is a stream of numbers, each in \<open>[0, 1)\<close>. The state of the source is
  the stream of the values still to come; a call takes the first one.
\<close>

type_synonym Rng = "nat \<Rightarrow> real"

definition draw :: "Rng \<Rightarrow> real \<times> Rng" where
  "draw g = (g 0, \<lambda>n. g (Suc n))"

section \<open>Sampling (lines 663 to 744)\<close>

record ConeParams =
  height :: real
  radiusBase :: real
  radiusTop :: real
  yBase :: real

record MorphPoint =
  scatterPosition :: Vector3
  treePosition :: Vector3
  scatterQuaternion :: Quaternion
  treeQuaternion :: Quaternion
  scatterScale :: Vector3
  treeScale :: Vector3
  seed :: real

definition randomPointInSphere :: "real \<Rightarrow> Rng \<Rightarrow> Vector3 \<times> Rng" where
  "randomPointInSphere radius g =
     (let (u, g1) = draw g;
          (v, g2) = draw g1;
          (w, g3) = draw g2;
          theta = 2 * pi * u;
          phi = arccos (2 * v - 1);
          r = radius * root 3 w;
          sinPhi = sin phi
      in (Vector3_new (r * sinPhi * cos theta) (r * cos phi) (r * sinPhi * sin theta), g3))"

definition coneRadiusAtY :: "real \<Rightarrow> ConeParams \<Rightarrow> real" where
  "coneRadiusAtY y' p =
     (let tt = clamp ((y' - yBase p) / height p) 0 1
      in lerp (radiusBase p) (radiusTop p) tt)"

text \<open>The height fraction \<open>t\<close> of \<open>randomPointInConeBiased\<close>, from the first draw \<open>raw\<close>.\<close>

definition heightFraction :: "real \<Rightarrow> real \<Rightarrow> real" where
  "heightFraction raw hBias = Math_pow raw (1 / hBias)"

definition randomPointInConeBiased ::
  "ConeParams \<Rightarrow> Rng \<Rightarrow> real \<Rightarrow> real \<Rightarrow> Vector3 \<times> Rng" where
  "randomPointInConeBiased p g sBias hBias =
     (let (raw, g1) = draw g;
          t = heightFraction raw hBias;
          y' = yBase p + t * height p;
          rMax = coneRadiusAtY y' p;
          (raw2, g2) = draw g1;
          r = rMax * Math_pow raw2 sBias;
          (raw3, g3) = draw g2;
          ang = raw3 * pi * 2
      in (Vector3_new (r * cos ang) y' (r * sin ang), g3))"

definition randomQuaternion :: "'a ThreeLib_scheme \<Rightarrow> Rng \<Rightarrow> Quaternion \<times> Rng" where
  "randomQuaternion lib g =
     (let (a, g1) = draw g;
          (b, g2) = draw g1;
          (c, g3) = draw g2;
          e = \<lparr>ex = (a - 0.5) * pi, ey = (b - 0.5) * pi, ez = (c - 0.5) * pi\<rparr>
      in (setFromEuler lib e, g3))"

text \<open>
  The unit vector \<open>outward\<close> of \<open>outwardQuaternionFromPosition\<close> (its first three
  lines): the horizontal part of the position, replaced by \<open>(1, 0, 0)\<close> when its squared
  length is below \<open>1e-6\<close>, then normalized.
\<close>

definition outwardDirection :: "Vector3 \<Rightarrow> Vector3" where
  "outwardDirection pos =
     (let outward = Vector3_new (vx pos) 0 (vz pos);
          outward = (if Vector3_lengthSq outward < 0.000001 then Vector3_new 1 0 0 else outward)
      in Vector3_normalize outward)"

definition outwardQuaternionFromPosition :: "'a ThreeLib_scheme \<Rightarrow> Vector3 \<Rightarrow> Quaternion" where
  "outwardQuaternionFromPosition lib pos =
     (let outward = outwardDirection pos;
          origin = Vector3_new 0 (vy pos) 0;
          target = Vector3_new (vx outward) (vy pos) (vz outward);
          m = lookAt lib origin target (Vector3_new 0 1 0)
      in setFromRotationMatrix lib m)"

section \<open>Building the point sets (lines 747 to 831)\<close>

text \<open>
  The loop \<open>for (let i = 0; i < count; i++)\<close> over a state \<open>s\<close>, entered at index \<open>i\<close>.
  The bound \<open>count\<close> is a number, not necessarily whole.
\<close>

function forLoop :: "real \<Rightarrow> (nat \<Rightarrow> 's \<Rightarrow> 's) \<Rightarrow> nat \<Rightarrow> 's \<Rightarrow> 's" where
  "forLoop count body i s =
     (if real i < count then forLoop count body (Suc i) (body i s) else s)"
  by pat_completeness auto
termination
proof (relation "measure (\<lambda>(count, body, i, s). nat \<lceil>count\<rceil> - i)")
  show "wf (measure (\<lambda>(count, body, i, s). nat \<lceil>count :: real\<rceil> - i))"
    by simp
next
  fix count :: real and body :: "nat \<Rightarrow> 's \<Rightarrow> 's" and i :: nat and s :: 's
  assume "real i < count"
  then have "int i < \<lceil>count\<rceil>"
    by linarith
  then show "((count, body, Suc i, body i s), (count, body, i, s))
     \<in> measure (\<lambda>(count, body, i, s). nat \<lceil>count\<rceil> - i)"
    by simp
qed

declare forLoop.simps [simp del]

text \<open>The field \<open>baseScale: { min, max }\<close> of the options.\<close>

record BaseScale =
  scaleMin :: real
  scaleMax :: real

text \<open>The options of \<open>buildMorphPoints\<close>; an optional field that is absent is \<open>None\<close>.\<close>

record MorphOpts =
  scatterRadius :: real
  cone :: ConeParams
  baseScale :: BaseScale
  surfaceBias :: "real option"
  heightBias :: "real option"
  extraTreeRadialOffset :: "real option"

text \<open>
  One round of the loop of \<open>buildMorphPoints\<close>: the point of index \<open>i\<close> and the random
  source after it. The numbers are drawn in the order of the source: scatter position,
  tree position, scale, scatter orientation.
\<close>

definition morphPointAt ::
  "'a ThreeLib_scheme \<Rightarrow> MorphOpts \<Rightarrow> nat \<Rightarrow> Rng \<Rightarrow> MorphPoint \<times> Rng" where
  "morphPointAt lib opts i g =
     (let sBias = (case surfaceBias opts of None \<Rightarrow> 0.25 | Some b \<Rightarrow> b);
          hBias = (case heightBias opts of None \<Rightarrow> 1.8 | Some b \<Rightarrow> b);
          offset = (case extraTreeRadialOffset opts of None \<Rightarrow> 0 | Some b \<Rightarrow> b);
          seed' = (real i + 1) * 99991;
          (scatterPosition', g1) = randomPointInSphere (scatterRadius opts) g;
          (treePosition', g2) = randomPointInConeBiased (cone opts) g1 sBias hBias;
          treePosition' =
            (if offset \<noteq> 0 then
               (let radial = Vector3_new (vx treePosition') 0 (vz treePosition')
                in if Vector3_lengthSq radial > 0.000001
                   then Vector3_add treePosition'
                          (Vector3_multiplyScalar (Vector3_normalize radial) offset)
                   else treePosition')
             else treePosition');
          (raw, g3) = draw g2;
          s = lerp (scaleMin (baseScale opts)) (scaleMax (baseScale opts)) raw;
          scale = Vector3_multiplyScalar (Vector3_new 1 1 1) s;
          (scatterQuaternion', g4) = randomQuaternion lib g3
      in (\<lparr>scatterPosition = scatterPosition',
           treePosition = treePosition',
           scatterQuaternion = scatterQuaternion',
           treeQuaternion = outwardQuaternionFromPosition lib treePosition',
           scatterScale = scale,
           treeScale = scale,
           seed = seed'\<rparr>, g4))"

text \<open>The state of a building loop: the points pushed so far and the random source.\<close>

type_synonym BuildState = "MorphPoint list \<times> Rng"

definition pushPoint :: "(Rng \<Rightarrow> MorphPoint \<times> Rng) \<Rightarrow> BuildState \<Rightarrow> BuildState" where
  "pushPoint mk st = (let (p, g') = mk (snd st) in (fst st @ [p], g'))"

definition buildMorphPoints ::
  "'a ThreeLib_scheme \<Rightarrow> real \<Rightarrow> MorphOpts \<Rightarrow> Rng \<Rightarrow> MorphPoint list \<times> Rng" where
  "buildMorphPoints lib count opts g =
     forLoop count (\<lambda>i. pushPoint (morphPointAt lib opts i)) 0 ([], g)"








section \<open>The per-frame drivers (lines 160 to 183 and 233 to 313)\<close>

text \<open>
  A position, an orientation and a scale: what \<open>compose\<close> packs into the matrix of an
  instance, and what a panel's group carries.
\<close>

record Transform =
  position :: Vector3
  quaternion :: Quaternion
  scale3 :: Vector3

text \<open>
  The body of the loop of \<open>MorphInstanced\<close>: position, orientation and scale of one
  instance, for the eased factor \<open>t\<close> and the clock's elapsed time.
\<close>

definition instanceTransform ::
  "'a ThreeLib_scheme \<Rightarrow> MorphPoint \<Rightarrow> real \<Rightarrow> real \<Rightarrow> real \<Rightarrow> Transform" where
  "instanceTransform lib p wobble t time =
     (let tmpPos = Vector3_lerp (scatterPosition p) (treePosition p) t;
          tmpQuat = slerp lib (scatterQuaternion p) (treeQuaternion p) t;
          tmpScale = Vector3_lerp (scatterScale p) (treeScale p) t;
          k = (1 - t) * wobble;
          tmpPos = tmpPos\<lparr>vy := vy tmpPos + sin (time * 0.9 + seed p * 0.0001) * k\<rparr>
      in \<lparr>position = tmpPos, quaternion = tmpQuat, scale3 = tmpScale\<rparr>)"

text \<open>
  The frame callback of \<open>MorphInstanced\<close>: the transforms written to the instance
  buffer, slot \<open>i\<close> for point \<open>i\<close>.
\<close>

definition morphInstancedFrame ::
  "'a ThreeLib_scheme \<Rightarrow> MorphPoint list \<Rightarrow> real \<Rightarrow> TreeStore \<Rightarrow> real \<Rightarrow> Transform list" where
  "morphInstancedFrame lib points wobble s time =
     (let t = easeInOutCubic (progress s)
      in map (\<lambda>p. instanceTransform lib p wobble t time) points)"

text \<open>
  \<open>PolaroidField\<close>: the vectors \<open>outward\<close>, \<open>right\<close> and \<open>up\<close> of a panel. \<open>right\<close> is
  \<open>outward \<times> worldUp\<close>, replaced by \<open>(1, 0, 0)\<close> when its squared length is below
  \<open>1e-8\<close>, then normalized.
\<close>

definition worldUp :: Vector3 where
  "worldUp = Vector3_new 0 1 0"

definition polaroidOutward :: "Vector3 \<Rightarrow> Vector3 \<Rightarrow> Vector3" where
  "polaroidOutward center treePos = Vector3_normalize (Vector3_sub center treePos)"

definition polaroidRight :: "Vector3 \<Rightarrow> Vector3" where
  "polaroidRight outward =
     (let right = Vector3_cross outward worldUp;
          right = (if Vector3_lengthSq right < 0.00000001 then Vector3_new 1 0 0 else right)
      in Vector3_normalize right)"

definition polaroidUp :: "Vector3 \<Rightarrow> Vector3 \<Rightarrow> Vector3" where
  "polaroidUp right outward = Vector3_normalize (Vector3_cross right outward)"

text \<open>
  The body of the loop of \<open>PolaroidField\<close> for a panel that is not the focused one.
  The focused panel, the selected one in \<open>SCATTERED\<close> mode, is moved towards the
  camera instead and takes no part in the morph; that branch reads the camera and the
  scene graph and is left out here.
\<close>

definition polaroidTransform ::
  "'a ThreeLib_scheme \<Rightarrow> Vector3 \<Rightarrow> MorphPoint \<Rightarrow> real \<Rightarrow> Transform" where
  "polaroidTransform lib center p t =
     (let align = clamp ((t - 0.75) / 0.25) 0 1;
          alignEased = align * align * (3 - 2 * align);
          pos = Vector3_lerp (scatterPosition p) (treePosition p) t;
          scl = Vector3_lerp (scatterScale p) (treeScale p) t;
          qFinal = slerp lib (scatterQuaternion p) (treeQuaternion p) t;
          outward = polaroidOutward center (treePosition p);
          right = polaroidRight outward;
          up = polaroidUp right outward;
          qUpright = setFromRotationMatrix lib (Matrix4_makeBasis right up outward);
          qFinal = slerp lib qFinal qUpright alignEased
      in \<lparr>position = pos, quaternion = qFinal, scale3 = scl\<rparr>)"

text \<open>
  The frame callback of \<open>PolaroidField\<close>: for each panel its new transform, or \<open>None\<close>
  for the focused panel. Every panel is taken to be mounted, so the loop skips none for
  a missing group.
\<close>

definition polaroidFieldFrame ::
  "'a ThreeLib_scheme \<Rightarrow> Vector3 \<Rightarrow> MorphPoint list \<Rightarrow> TreeStore \<Rightarrow> Transform option list" where
  "polaroidFieldFrame lib center points s =
     (let t = easeInOutCubic (progress s)
      in map (\<lambda>(i, p).
                if state s = SCATTERED \<and> selectedPolaroid s = Some i then None
                else Some (polaroidTransform lib center p t))
             (enumerate 0 points))"

text \<open>The cone of \<open>TreeSystem\<close>.\<close>

definition treeCone :: ConeParams where
  "treeCone = \<lparr>height = 10.5, radiusBase = 4.6, radiusTop = 0.25, yBase = -4.8\<rparr>"

section \<open>Double precision\<close>







section \<open>Sample inputs\<close>

text \<open>
  Concrete inputs at which the theorems below are instantiated: a library whose
  orientations are all the identity, a point that moves from the origin to \<open>(1, 0, 0)\<close>,
  the options of the gold ornaments of \<open>TreeSystem\<close>, and a random source that always
  returns \<open>0.5\<close>.
\<close>

definition identityQuaternion :: Quaternion where
  "identityQuaternion = \<lparr>qx = 0, qy = 0, qz = 0, qw = 1\<rparr>"

definition sampleLib :: ThreeLib where
  "sampleLib =
     \<lparr>setFromEuler = (\<lambda>e. identityQuaternion),
      setFromRotationMatrix = (\<lambda>m. identityQuaternion),
      lookAt = (\<lambda>eye target up. Matrix4_makeBasis (Vector3_new 1 0 0) (Vector3_new 0 1 0) (Vector3_new 0 0 1)),
      slerp = (\<lambda>a b t. a)\<rparr>"

definition samplePoint :: MorphPoint where
  "samplePoint =
     \<lparr>scatterPosition = Vector3_new 0 0 0,
      treePosition = Vector3_new 1 0 0,
      scatterQuaternion = identityQuaternion,
      treeQuaternion = identityQuaternion,
      scatterScale = Vector3_new 1 1 1,
      treeScale = Vector3_new 1 1 1,
      seed = 99991\<rparr>"

definition ornamentOpts :: MorphOpts where
  "ornamentOpts =
     \<lparr>scatterRadius = 10,
      cone = treeCone,
      baseScale = \<lparr>scaleMin = 0.55, scaleMax = 1.1\<rparr>,
      surfaceBias = Some 0.12,
      heightBias = Some 1.2,
      extraTreeRadialOffset = Some 0.18\<rparr>"

definition halfRng :: Rng where
  "halfRng = (\<lambda>n. 1 / 2)"

section \<open>Auxiliary facts\<close>

subsection \<open>The easing function\<close>

lemma Math_pow_cube: "Math_pow b 3 = b ^ 3"
  by (simp add: Math_pow_def)

lemma ease_lo: "t < 1 / 2 \<Longrightarrow> easeInOutCubic t = 4 * t ^ 3"
  by (simp add: easeInOutCubic_def power3_eq_cube algebra_simps)

lemma ease_hi: "1 / 2 \<le> t \<Longrightarrow> easeInOutCubic t = 1 - (2 - 2 * t) ^ 3 / 2"
  by (simp add: easeInOutCubic_def Math_pow_cube)

lemma cube_mono: "(a::real) \<le> b \<Longrightarrow> a ^ 3 \<le> b ^ 3"
  by (rule power_mono_odd) simp_all

lemma ease_lo_half: "t < 1 / 2 \<Longrightarrow> easeInOutCubic t \<le> 1 / 2"
proof -
  assume h: "t < 1 / 2"
  have "t ^ 3 \<le> (1 / 2) ^ 3"
    using h by (intro cube_mono) simp
  then show ?thesis
    using h by (simp add: ease_lo power3_eq_cube)
qed

lemma ease_hi_half: "1 / 2 \<le> t \<Longrightarrow> 1 / 2 \<le> easeInOutCubic t"
proof -
  assume h: "1 / 2 \<le> t"
  have "(2 - 2 * t) ^ 3 \<le> 1 ^ 3"
    using h by (intro cube_mono) simp
  then show ?thesis
    using h by (simp add: ease_hi)
qed

lemma ease_mono: "x \<le> y \<Longrightarrow> easeInOutCubic x \<le> easeInOutCubic y"
proof -
  assume xy: "x \<le> y"
  consider "y < 1 / 2" | "x < 1 / 2" "1 / 2 \<le> y" | "1 / 2 \<le> x"
    by linarith
  then show ?thesis
  proof cases
    case 1
    then have "x < 1 / 2"
      using xy by simp
    with 1 cube_mono[OF xy] show ?thesis
      by (simp add: ease_lo)
  next
    case 2
    then show ?thesis
      using ease_lo_half[of x] ease_hi_half[of y] by linarith
  next
    case 3
    then have y: "1 / 2 \<le> y"
      using xy by simp
    have "(2 - 2 * y) ^ 3 \<le> (2 - 2 * x) ^ 3"
      using xy by (intro cube_mono) simp
    with 3 y show ?thesis
      by (simp add: ease_hi)
  qed
qed

lemma ease_range: "0 \<le> t \<Longrightarrow> t \<le> 1 \<Longrightarrow> 0 \<le> easeInOutCubic t \<and> easeInOutCubic t \<le> 1"
  using ease_mono[of 0 t] ease_mono[of t 1] by (simp add: ease_lo ease_hi)

subsection \<open>The store under the input handlers\<close>

lemma handleEvent_progress:
  "0 \<le> progress s \<and> progress s \<le> 1 \<Longrightarrow>
   0 \<le> progress (handleEvent s ev) \<and> progress (handleEvent s ev) \<le> 1"
  by (cases ev)
    (auto simp add: onKey_def toggle_def onWheel_def clamp_def setState_def setProgress_def
      panelPointerDown_def selectPolaroid_def groupPointerDown_def clearPolaroid_def Let_def)

lemma foldl_progress:
  "0 \<le> progress s \<and> progress s \<le> 1 \<Longrightarrow>
   0 \<le> progress (foldl handleEvent s evs) \<and> progress (foldl handleEvent s evs) \<le> 1"
proof (induction evs arbitrary: s)
  case Nil
  then show ?case by simp
next
  case (Cons ev evs)
  from Cons.IH[OF handleEvent_progress[OF Cons.prems]] show ?case by simp
qed

lemma runEvents_progress: "0 \<le> progress (runEvents evs) \<and> progress (runEvents evs) \<le> 1"
  unfolding runEvents_def by (rule foldl_progress) (simp add: initialStore_def)

subsection \<open>The building loop\<close>

lemma pushPoint_fst: "fst (pushPoint mk st) = fst st @ [fst (mk (snd st))]"
  by (simp add: pushPoint_def split_beta)

text \<open>The loop pushes one point for every index from \<open>i\<close> up to the bound.\<close>

lemma forLoop_length:
  "length (fst (forLoop count (\<lambda>i. pushPoint (mk i)) i st))
     = length (fst st) + (nat \<lceil>count\<rceil> - i)"
proof (induction count "\<lambda>i. pushPoint (mk i)" i st rule: forLoop.induct)
  case (1 count i s)
  show ?case
  proof (cases "real i < count")
    case True
    then have "int i < \<lceil>count\<rceil>"
      by linarith
    then have "nat \<lceil>count\<rceil> - i = Suc (nat \<lceil>count\<rceil> - Suc i)"
      by linarith
    with True 1 show ?thesis
      by (subst forLoop.simps) (simp add: pushPoint_fst)
  next
    case False
    then have "\<lceil>count\<rceil> \<le> int i"
      by (simp add: ceiling_le_iff)
    then have "nat \<lceil>count\<rceil> - i = 0"
      by linarith
    with False show ?thesis
      by (subst forLoop.simps) simp
  qed
qed

text \<open>A property of every point the body makes holds for every point of the result.\<close>

lemma forLoop_all:
  assumes "\<And>j g. R (fst (mk j g))"
  shows "list_all R (fst st) \<Longrightarrow>
    list_all R (fst (forLoop count (\<lambda>i. pushPoint (mk i)) i st))"
proof (induction count "\<lambda>i. pushPoint (mk i)" i st rule: forLoop.induct)
  case (1 count i s)
  show ?case
  proof (cases "real i < count")
    case True
    have "list_all R (fst (pushPoint (mk i) s))"
      using "1.prems" assms by (simp add: pushPoint_fst)
    with True "1.hyps" show ?thesis
      by (subst forLoop.simps) simp
  next
    case False
    with "1.prems" show ?thesis
      by (subst forLoop.simps) simp
  qed
qed

lemma morphPointAt_scale:
  "treeScale (fst (morphPointAt lib opts j g)) = scatterScale (fst (morphPointAt lib opts j g))"
  by (simp add: morphPointAt_def Let_def split_beta)

subsection \<open>The panel grid for 25 panels\<close>





subsection \<open>Unit vectors\<close>

lemma Vector3_normalize_unit:
  assumes "Vector3_lengthSq v > 0"
  shows "Vector3_length (Vector3_normalize v) = 1"
proof -
  let ?l = "Vector3_length v"
  have l: "?l > 0"
    using assms by (simp add: Vector3_length_def)
  have sq: "?l * ?l = Vector3_lengthSq v"
    using assms by (simp add: Vector3_length_def)
  have "Vector3_lengthSq (Vector3_normalize v) = Vector3_lengthSq v / (?l * ?l)"
    using l by (simp add: Vector3_normalize_def Vector3_lengthSq_def Vector3_new_def Let_def
        add_divide_distrib)
  also have "\<dots> = 1"
    using l sq assms by simp
  finally show ?thesis
    by (simp add: Vector3_length_def)
qed

lemma unitX_lengthSq: "Vector3_lengthSq (Vector3_new 1 0 0) = 1"
  by (simp add: Vector3_lengthSq_def Vector3_new_def)

lemma unitX_normalize: "Vector3_normalize (Vector3_new 1 0 0) = Vector3_new 1 0 0"
  by (simp add: Vector3_normalize_def Vector3_length_def unitX_lengthSq Let_def)
    (simp add: Vector3_new_def)

lemma outwardDirection_axis:
  "vx pos = 0 \<Longrightarrow> vz pos = 0 \<Longrightarrow> outwardDirection pos = Vector3_new 1 0 0"
  by (simp add: outwardDirection_def Let_def unitX_normalize)
    (simp add: Vector3_lengthSq_def Vector3_new_def)

lemma outwardDirection_unit: "Vector3_length (outwardDirection pos) = 1"
  unfolding outwardDirection_def Let_def
  by (rule Vector3_normalize_unit) (simp add: unitX_lengthSq)

lemma polaroidRight_fallback:
  "Vector3_lengthSq (Vector3_cross outward worldUp) < 0.00000001 \<Longrightarrow>
   polaroidRight outward = Vector3_new 1 0 0"
  by (simp add: polaroidRight_def Let_def unitX_normalize)

lemma polaroidRight_unit: "Vector3_length (polaroidRight outward) = 1"
  unfolding polaroidRight_def Let_def
  by (rule Vector3_normalize_unit) (simp add: unitX_lengthSq)

subsection \<open>The height fraction of the cone sampler\<close>

lemma Math_pow_fraction: "0 < e \<Longrightarrow> e < 1 \<Longrightarrow> Math_pow b e = b powr e"
proof -
  assume a: "0 < e" "e < 1"
  then have "\<lfloor>e\<rfloor> = 0"
    by linarith
  with a show ?thesis
    by (simp add: Math_pow_def)
qed

lemma heightFraction_powr: "1 < hBias \<Longrightarrow> heightFraction raw hBias = raw powr (1 / hBias)"
  by (simp add: heightFraction_def Math_pow_fraction)

text \<open>With a height bias above 1 every draw in \<open>(0, 1)\<close> is moved up, towards the top.\<close>

lemma heightFraction_above:
  assumes "1 < hBias" "0 < raw" "raw < 1"
  shows "raw < heightFraction raw hBias"
proof -
  have "1 / hBias < 1"
    using assms by simp
  then have "raw powr 1 < raw powr (1 / hBias)"
    using assms by (intro powr_less_mono') simp_all
  then show ?thesis
    using assms by (simp add: heightFraction_powr)
qed

lemma half_powr: "1 < hBias \<Longrightarrow> (1 / 2) powr hBias < (1 / 2 :: real)"
  using powr_less_mono'[of "1 / 2" 1 hBias] by simp

text \<open>
  The draws that land in the lower half of the cone are those below \<open>(1/2) powr hBias\<close>,
  which by \<open>half_powr\<close> is less than half of the interval \<open>[0, 1)\<close>.
\<close>

lemma heightFraction_lower_half:
  assumes "1 < hBias" "0 \<le> raw"
  shows "(heightFraction raw hBias < 1 / 2) = (raw < (1 / 2) powr hBias)"
proof (cases "raw = 0")
  case True
  then show ?thesis
    using assms by (simp add: heightFraction_powr)
next
  case False
  then have r: "0 < raw"
    using assms by simp
  have "(raw powr (1 / hBias) < 1 / 2)
      = ((raw powr (1 / hBias)) powr hBias < (1 / 2) powr hBias)"
  proof
    assume "raw powr (1 / hBias) < 1 / 2"
    then show "(raw powr (1 / hBias)) powr hBias < (1 / 2) powr hBias"
      using assms by (intro powr_less_mono2) simp_all
  next
    assume a: "(raw powr (1 / hBias)) powr hBias < (1 / 2) powr hBias"
    show "raw powr (1 / hBias) < 1 / 2"
    proof (rule ccontr)
      assume "\<not> raw powr (1 / hBias) < 1 / 2"
      then have "1 / 2 \<le> raw powr (1 / hBias)"
        by simp
      then have "(1 / 2) powr hBias \<le> (raw powr (1 / hBias)) powr hBias"
        using assms by (intro powr_mono2) simp_all
      with a show False
        by simp
    qed
  qed
  also have "(raw powr (1 / hBias)) powr hBias = raw"
    using assms r by (simp add: powr_powr)
  finally show ?thesis
    using assms by (simp add: heightFraction_powr)
qed

subsection \<open>Rounding to a double\<close>

















subsection \<open>The height fractions of the panel grid in double precision\<close>
































subsection \<open>Bounds on the easing in double precision\<close>










subsection \<open>The easing in double precision at four inputs\<close>























section \<open>The claims\<close>

subsection \<open>C1: direction of the height bias\<close>

text \<open>
  C1 says that with \<open>heightBias = 1.2\<close> the median height fraction is below \<open>0.5\<close>. The
  height fraction grows with the draw, so its median is the fraction of the median draw
  \<open>0.5\<close>. The code puts that draw above half height: \<open>0.5\<close> to the power \<open>1 / 1.2\<close> is
  greater than \<open>0.5\<close>, and the sampled point of the scene's cone lies above its middle.
\<close>

theorem heightFraction_median_above_half:
  "1 / 2 < heightFraction (1 / 2) 1.2 \<and>
   yBase treeCone + height treeCone / 2
     < vy (fst (randomPointInConeBiased treeCone halfRng 0.12 1.2))"
proof -
  have h: "1 / 2 < heightFraction (1 / 2) 1.2"
    by (rule heightFraction_above) simp_all
  have "vy (fst (randomPointInConeBiased treeCone halfRng 0.12 1.2))
      = yBase treeCone + heightFraction (1 / 2) 1.2 * height treeCone"
    by (simp add: randomPointInConeBiased_def draw_def halfRng_def Let_def Vector3_new_def)
  moreover have "0 < height treeCone"
    by (simp add: treeCone_def)
  ultimately show ?thesis
    using h by simp
qed

subsection \<open>C2: the range of the stored progress\<close>

text \<open>
  C2, as amended: the stored progress lies in \<open>[0, 1]\<close> in every state reached from the
  initial store through the input handlers. The wheel handler clamps before it calls
  \<open>setProgress\<close>, and \<open>toggle\<close> stores 0 or 1. \<open>setProgress(p)\<close> itself stores \<open>p\<close> as
  given, and the frame callback applies the easing to the stored progress as it is.
\<close>

theorem progress_in_range_through_handlers:
  "0 \<le> progress (runEvents evs) \<and> progress (runEvents evs) \<le> 1 \<and>
   0 \<le> progress (onWheel deltaY s) \<and> progress (onWheel deltaY s) \<le> 1 \<and>
   (progress (toggle s) = 0 \<or> progress (toggle s) = 1) \<and>
   progress (setProgress p s) = p \<and>
   morphInstancedFrame lib points wobble (setProgress p s) time
     = map (\<lambda>pt. instanceTransform lib pt wobble (easeInOutCubic p) time) points"
proof -
  have "0 \<le> progress (onWheel deltaY s) \<and> progress (onWheel deltaY s) \<le> 1"
    by (simp add: onWheel_def clamp_def setState_def setProgress_def Let_def)
  moreover have "progress (toggle s) = 0 \<or> progress (toggle s) = 1"
    by (simp add: toggle_def Let_def)
  moreover have "morphInstancedFrame lib points wobble (setProgress p s) time
     = map (\<lambda>pt. instanceTransform lib pt wobble (easeInOutCubic p) time) points"
    by (simp add: morphInstancedFrame_def setProgress_def)
  ultimately show ?thesis
    using runEvents_progress[of evs] by (simp add: setProgress_def)
qed

text \<open>
  The theorem at a wheel event of 250 from the initial store, which leaves the progress
  at \<open>0.7\<close>.
\<close>

theorem progress_in_range_through_handlers_witness:
  "progress (runEvents [Wheel 250]) = 0.7 \<and>
   0 \<le> progress (runEvents [Wheel 250]) \<and> progress (runEvents [Wheel 250]) \<le> 1 \<and>
   progress (setProgress 0.7 initialStore) = 0.7"
  using progress_in_range_through_handlers[of "[Wheel 250]" 250 initialStore "0.7"]
  by (simp add: runEvents_def onWheel_def clamp_def setState_def setProgress_def
      initialStore_def Let_def)

text \<open>
  C2 as stated fails: \<open>setProgress(2)\<close> leaves the progress at 2, and the frame callback
  then moves the sample point to \<open>x = 5\<close>, five times the way to its tree position; with
  a clamp before the easing the factor would be 1.
\<close>

theorem setProgress_unclamped_counterexample:
  "progress (setProgress 2 initialStore) = 2 \<and>
   \<not> (0 \<le> progress (setProgress 2 initialStore) \<and> progress (setProgress 2 initialStore) \<le> 1) \<and>
   map (\<lambda>tr. vx (position tr))
     (morphInstancedFrame sampleLib [samplePoint] 0.35 (setProgress 2 initialStore) 0) = [5] \<and>
   easeInOutCubic (clamp 2 0 1) = 1"
  by (simp add: setProgress_def initialStore_def morphInstancedFrame_def instanceTransform_def
      samplePoint_def Vector3_lerp_def Vector3_new_def ease_hi clamp_def Let_def)

subsection \<open>C3: a pointer-down on the background\<close>

text \<open>
  C3, as amended: when the mode is \<open>SCATTERED\<close>, a pointer-down that reaches the scene
  group leaves no panel selected; when the mode is \<open>TREE_SHAPE\<close> the handler leaves the
  store as it is. Mode and progress are never changed by it.
\<close>

theorem background_click_clears_when_scattered:
  "(state s = SCATTERED \<longrightarrow> selectedPolaroid (groupPointerDown s) = None) \<and>
   (state s = TREE_SHAPE \<longrightarrow> groupPointerDown s = s) \<and>
   state (groupPointerDown s) = state s \<and> progress (groupPointerDown s) = progress s"
  by (auto simp add: groupPointerDown_def clearPolaroid_def)

text \<open>
  The theorem after scrolling to the scattered state and selecting panel 3, and at the
  initial store.
\<close>

theorem background_click_clears_when_scattered_witness:
  "state (runEvents [Wheel 1000, PanelPointerDown 3]) = SCATTERED \<and>
   selectedPolaroid (runEvents [Wheel 1000, PanelPointerDown 3]) = Some 3 \<and>
   selectedPolaroid (groupPointerDown (runEvents [Wheel 1000, PanelPointerDown 3])) = None \<and>
   state initialStore = TREE_SHAPE \<and> groupPointerDown initialStore = initialStore"
  using background_click_clears_when_scattered[of "runEvents [Wheel 1000, PanelPointerDown 3]"]
    background_click_clears_when_scattered[of initialStore]
  by (simp add: runEvents_def initialStore_def onWheel_def clamp_def setState_def setProgress_def
      panelPointerDown_def selectPolaroid_def Let_def)

text \<open>
  C3 as stated fails in \<open>TREE_SHAPE\<close> mode: scroll to the scattered state, select panel 3
  and press space. Panel 3 is still selected in mode \<open>TREE_SHAPE\<close>, and it stays selected
  after a pointer-down on the background.
\<close>

theorem background_click_tree_shape_counterexample:
  "selectedPolaroid (runEvents [Wheel 1000, PanelPointerDown 3, KeyDown ''Space'']) = Some 3 \<and>
   state (runEvents [Wheel 1000, PanelPointerDown 3, KeyDown ''Space'']) = TREE_SHAPE \<and>
   selectedPolaroid
     (runEvents [Wheel 1000, PanelPointerDown 3, KeyDown ''Space'', BackgroundPointerDown])
     = Some 3"
  by (simp add: runEvents_def initialStore_def onWheel_def clamp_def setState_def setProgress_def
      panelPointerDown_def selectPolaroid_def onKey_def toggle_def groupPointerDown_def Let_def)

subsection \<open>C4: the easing on the unit interval\<close>

text \<open>
  C4: on \<open>[0, 1]\<close> the easing stays in \<open>[0, 1]\<close> and does not decrease; it maps 0, 0.5 and
  1 to themselves; it is \<open>4t\<^sup>3\<close> below 0.5 and the mirror image \<open>1 - 4(1 - t)\<^sup>3\<close> from 0.5
  on, so that \<open>ease(1 - t) = 1 - ease(t)\<close>.
\<close>

theorem easeInOutCubic_unit_interval:
  "(0 \<le> p \<and> p \<le> 1 \<longrightarrow> 0 \<le> easeInOutCubic p \<and> easeInOutCubic p \<le> 1) \<and>
   easeInOutCubic 0 = 0 \<and> easeInOutCubic 1 = 1 \<and> easeInOutCubic 0.5 = 0.5 \<and>
   (0 \<le> a \<and> a \<le> b \<and> b \<le> 1 \<longrightarrow> easeInOutCubic a \<le> easeInOutCubic b) \<and>
   (t < 0.5 \<longrightarrow> easeInOutCubic t = 4 * t ^ 3) \<and>
   (0.5 \<le> t \<longrightarrow> easeInOutCubic t = 1 - 4 * (1 - t) ^ 3) \<and>
   easeInOutCubic (1 - t) = 1 - easeInOutCubic t"
proof -
  have hi: "0.5 \<le> t \<Longrightarrow> easeInOutCubic t = 1 - 4 * (1 - t) ^ 3" for t
  proof -
    assume "0.5 \<le> t"
    then have "easeInOutCubic t = 1 - (2 - 2 * t) ^ 3 / 2"
      by (simp add: ease_hi)
    also have "(2 - 2 * t) ^ 3 = 8 * (1 - t) ^ 3"
      by (simp add: power3_eq_cube algebra_simps)
    finally show ?thesis
      by simp
  qed
  have lo: "t < 0.5 \<Longrightarrow> easeInOutCubic t = 4 * t ^ 3" for t
    by (simp add: ease_lo)
  have vals: "easeInOutCubic 0 = 0" "easeInOutCubic 1 = 1" "easeInOutCubic 0.5 = 0.5"
    by (simp_all add: ease_lo ease_hi)
  have sym: "easeInOutCubic (1 - t) = 1 - easeInOutCubic t"
  proof -
    consider "t < 0.5" | "t = 0.5" | "0.5 < t"
      by linarith
    then show ?thesis
    proof cases
      case 1
      then have "0.5 \<le> 1 - t"
        by simp
      from hi[OF this] lo[OF 1] show ?thesis
        by simp
    next
      case 2
      then have t: "t = 1 / 2"
        by simp
      show ?thesis
        unfolding t by (simp add: ease_hi)
    next
      case 3
      then have a: "1 - t < 0.5" and b: "0.5 \<le> t"
        by simp_all
      from lo[OF a] hi[OF b] show ?thesis
        by simp
    qed
  qed
  show ?thesis
    using ease_range[of p] ease_mono[of a b] hi[of t] lo[of t] sym vals by blast
qed

text \<open>The theorem at \<open>0.25\<close> and \<open>0.75\<close>, which the easing maps to \<open>1/16\<close> and \<open>15/16\<close>.\<close>

theorem easeInOutCubic_unit_interval_witness:
  "(0::real) \<le> 1 / 4 \<and> (1 / 4 :: real) \<le> 3 / 4 \<and> (3 / 4 :: real) \<le> 1 \<and>
   0 \<le> easeInOutCubic (1 / 4) \<and> easeInOutCubic (1 / 4) \<le> 1 \<and>
   easeInOutCubic (1 / 4) \<le> easeInOutCubic (3 / 4) \<and>
   easeInOutCubic (1 / 4) = 1 / 16 \<and> easeInOutCubic (3 / 4) = 15 / 16"
  using easeInOutCubic_unit_interval[where p = "1 / 4" and a = "1 / 4" and b = "3 / 4" and t = "1 / 4"]
    easeInOutCubic_unit_interval[where p = "1 / 4" and a = "1 / 4" and b = "3 / 4" and t = "3 / 4"]
  by (simp add: power3_eq_cube)

subsection \<open>C5: toggle\<close>

text \<open>
  C5: \<open>toggle\<close> flips the mode and stores progress 1 for \<open>TREE_SHAPE\<close> and 0 for
  \<open>SCATTERED\<close>, leaving the selection alone. From the initial store, in mode \<open>TREE_SHAPE\<close>
  with progress 1, one toggle gives \<open>SCATTERED\<close> with progress 0 and a second toggle
  gives the initial store back.
\<close>

theorem toggle_flips_and_snaps:
  "(state s = SCATTERED \<longrightarrow> state (toggle s) = TREE_SHAPE \<and> progress (toggle s) = 1) \<and>
   (state s = TREE_SHAPE \<longrightarrow> state (toggle s) = SCATTERED \<and> progress (toggle s) = 0) \<and>
   selectedPolaroid (toggle s) = selectedPolaroid s \<and>
   state initialStore = TREE_SHAPE \<and> progress initialStore = 1 \<and>
   toggle initialStore = initialStore\<lparr>state := SCATTERED, progress := 0\<rparr> \<and>
   toggle (toggle initialStore) = initialStore"
  by (simp add: toggle_def initialStore_def Let_def)

text \<open>The theorem at the initial store and at the store after one toggle.\<close>

theorem toggle_flips_and_snaps_witness:
  "state initialStore = TREE_SHAPE \<and>
   state (toggle initialStore) = SCATTERED \<and> progress (toggle initialStore) = 0 \<and>
   state (toggle (toggle initialStore)) = TREE_SHAPE \<and>
   progress (toggle (toggle initialStore)) = 1"
  using toggle_flips_and_snaps[of initialStore] toggle_flips_and_snaps[of "toggle initialStore"]
  by simp

subsection \<open>C6: a pointer-down on a panel\<close>

text \<open>
  C6: a pointer-down on panel \<open>i\<close> selects it when the mode is \<open>SCATTERED\<close> and leaves
  the store unchanged when the mode is \<open>TREE_SHAPE\<close>.
\<close>

theorem panel_select_only_scattered:
  "(state s = SCATTERED \<longrightarrow> panelPointerDown i s = s\<lparr>selectedPolaroid := Some i\<rparr>) \<and>
   (state s = TREE_SHAPE \<longrightarrow> panelPointerDown i s = s)"
  by (simp add: panelPointerDown_def selectPolaroid_def)

text \<open>
  The theorem for panel 3, at the store after one toggle and at the initial store, where
  nothing is selected before or after.
\<close>

theorem panel_select_only_scattered_witness:
  "state (toggle initialStore) = SCATTERED \<and>
   selectedPolaroid (panelPointerDown 3 (toggle initialStore)) = Some 3 \<and>
   state initialStore = TREE_SHAPE \<and> selectedPolaroid initialStore = None \<and>
   selectedPolaroid (panelPointerDown 3 initialStore) = None"
  using panel_select_only_scattered[of "toggle initialStore" 3]
    panel_select_only_scattered[of initialStore 3]
  by (simp add: toggle_def initialStore_def)

subsection \<open>C7: the number of points and their scale\<close>

text \<open>
  C7: for a whole count \<open>N\<close>, \<open>buildMorphPoints\<close> returns exactly \<open>N\<close> points, and the
  tree scale of every point equals its scatter scale.
\<close>

theorem buildMorphPoints_count_and_scale:
  "length (fst (buildMorphPoints lib (real N) opts g)) = N \<and>
   (\<forall>p \<in> set (fst (buildMorphPoints lib (real N) opts g)). treeScale p = scatterScale p)"
proof -
  have "list_all (\<lambda>p. treeScale p = scatterScale p) (fst (buildMorphPoints lib (real N) opts g))"
    unfolding buildMorphPoints_def
    by (rule forLoop_all) (simp_all add: morphPointAt_scale)
  then show ?thesis
    by (simp add: buildMorphPoints_def forLoop_length list_all_iff)
qed

text \<open>The theorem for two gold ornaments: two points, and the first one keeps its scale.\<close>

theorem buildMorphPoints_count_and_scale_witness:
  "length (fst (buildMorphPoints sampleLib (real 2) ornamentOpts halfRng)) = 2 \<and>
   treeScale (fst (buildMorphPoints sampleLib (real 2) ornamentOpts halfRng) ! 0)
     = scatterScale (fst (buildMorphPoints sampleLib (real 2) ornamentOpts halfRng) ! 0)"
proof -
  note w = buildMorphPoints_count_and_scale[of sampleLib 2 ornamentOpts halfRng]
  from w have "fst (buildMorphPoints sampleLib (real 2) ornamentOpts halfRng) ! 0
      \<in> set (fst (buildMorphPoints sampleLib (real 2) ornamentOpts halfRng))"
    by (intro nth_mem) simp
  with w show ?thesis
    by blast
qed

subsection \<open>C8: the grid of 25 panels\<close>




subsection \<open>C9: degenerate directions\<close>

text \<open>
  C9: for a position on the vertical axis the outward direction falls back to
  \<open>(1, 0, 0)\<close>, and the orientation is the one of looking from the axis along
  \<open>(1, 0, 0)\<close>; for every position the outward direction has length 1, so the look-at
  matrix is built from two distinct points. In the panel driver the right vector falls
  back to \<open>(1, 0, 0)\<close> when the squared length of \<open>outward \<times> worldUp\<close> is below \<open>1e-8\<close>,
  and it always has length 1.
\<close>

theorem degenerate_directions_fall_back:
  "(vx pos = 0 \<and> vz pos = 0 \<longrightarrow>
      outwardDirection pos = Vector3_new 1 0 0 \<and>
      outwardQuaternionFromPosition lib pos =
        setFromRotationMatrix lib
          (lookAt lib (Vector3_new 0 (vy pos) 0) (Vector3_new 1 (vy pos) 0) (Vector3_new 0 1 0))) \<and>
   Vector3_length (outwardDirection pos) = 1 \<and>
   (Vector3_lengthSq (Vector3_cross outward worldUp) < 0.00000001 \<longrightarrow>
      polaroidRight outward = Vector3_new 1 0 0) \<and>
   Vector3_length (polaroidRight outward) = 1"
  by (simp add: outwardDirection_axis outwardDirection_unit polaroidRight_fallback
      polaroidRight_unit outwardQuaternionFromPosition_def Let_def)
    (simp add: Vector3_new_def)

text \<open>
  The theorem at the position \<open>(0, 2, 0)\<close> on the axis and at the outward vector
  \<open>(0, 1, 0)\<close>, which is parallel to \<open>worldUp\<close>.
\<close>

theorem degenerate_directions_fall_back_witness:
  "vx (Vector3_new 0 2 0) = 0 \<and> vz (Vector3_new 0 2 0) = 0 \<and>
   outwardDirection (Vector3_new 0 2 0) = Vector3_new 1 0 0 \<and>
   Vector3_lengthSq (Vector3_cross (Vector3_new 0 1 0) worldUp) < 0.00000001 \<and>
   polaroidRight (Vector3_new 0 1 0) = Vector3_new 1 0 0"
  using degenerate_directions_fall_back[of "Vector3_new 0 2 0" sampleLib "Vector3_new 0 1 0"]
  by (simp add: Vector3_new_def Vector3_cross_def Vector3_lengthSq_def worldUp_def)

subsection \<open>C10: the easing outside the unit interval\<close>




end
